theory Spec2Isabelle
  imports Complex_Main
begin

section \<open>Python strings\<close>

text \<open>
  The price engine of \<^verbatim>\<open>motor_precios.py\<close> works on Python strings. A string is modelled
  as a list of characters whose code points lie below 256 (ASCII and Latin-1); the character
  classes below are the ones Python's \<^verbatim>\<open>str\<close> methods use on that range.
\<close>

definition cp :: "char \<Rightarrow> int" where
  "cp c = of_char c"

definition isspace :: "char \<Rightarrow> bool" where
  "isspace c = ((9 \<le> cp c \<and> cp c \<le> 13) \<or> (28 \<le> cp c \<and> cp c \<le> 32) \<or> cp c = 133 \<or> cp c = 160)"

definition isdigit :: "char \<Rightarrow> bool" where
  "isdigit c = ((48 \<le> cp c \<and> cp c \<le> 57) \<or> cp c = 178 \<or> cp c = 179 \<or> cp c = 185)"

definition isalpha :: "char \<Rightarrow> bool" where
  "isalpha c = ((65 \<le> cp c \<and> cp c \<le> 90) \<or> (97 \<le> cp c \<and> cp c \<le> 122) \<or> cp c = 170 \<or> cp c = 181
     \<or> cp c = 186 \<or> (192 \<le> cp c \<and> cp c \<le> 214) \<or> (216 \<le> cp c \<and> cp c \<le> 246) \<or> 248 \<le> cp c)"

definition lower_char :: "char \<Rightarrow> char" where
  "lower_char c = (if (65 \<le> cp c \<and> cp c \<le> 90) \<or> (192 \<le> cp c \<and> cp c \<le> 214) \<or> (216 \<le> cp c \<and> cp c \<le> 222)
     then char_of (cp c + 32) else c)"

text \<open>\<^verbatim>\<open>s.lower()\<close>, \<^verbatim>\<open>s.strip()\<close>.\<close>

definition lower :: "string \<Rightarrow> string" where
  "lower s = map lower_char s"

definition strip :: "string \<Rightarrow> string" where
  "strip s = rev (dropWhile isspace (rev (dropWhile isspace s)))"

text \<open>\<^verbatim>\<open>sub in s\<close>: \<open>sub\<close> occurs in \<open>s\<close> as a contiguous substring.\<close>

fun contiene :: "string \<Rightarrow> string \<Rightarrow> bool" where
  "contiene sub [] = (sub = [])"
| "contiene sub (c # cs) = (take (length sub) (c # cs) = sub \<or> contiene sub cs)"

text \<open>
  \<^verbatim>\<open>s.replace(old, new)\<close> for a non-empty \<open>old\<close>: the occurrences are replaced from left to
  right and do not overlap. (The source never calls it with an empty \<open>old\<close>; the model then
  leaves the string as it is.)
\<close>

function replace :: "string \<Rightarrow> string \<Rightarrow> string \<Rightarrow> string" where
  "replace old new [] = []"
| "replace old new (c # cs) =
     (if old \<noteq> [] \<and> take (length old) (c # cs) = old
      then new @ replace old new (drop (length old) (c # cs))
      else c # replace old new cs)"
  by pat_completeness auto
termination
  by (relation "measure (\<lambda>(old, new, s). length s)") auto

text \<open>\<^verbatim>\<open>s.split(c)\<close> on a one-character separator: always at least one part.\<close>

fun split :: "char \<Rightarrow> string \<Rightarrow> string list" where
  "split c [] = [[]]"
| "split c (x # xs) =
     (if x = c then [] # split c xs
      else (case split c xs of [] \<Rightarrow> [[x]] | p # ps \<Rightarrow> (x # p) # ps))"

text \<open>\<^verbatim>\<open>s.rfind(c)\<close>: the index of the last occurrence of \<open>c\<close>, or -1.\<close>

fun rfind_desde :: "char \<Rightarrow> int \<Rightarrow> int \<Rightarrow> string \<Rightarrow> int" where
  "rfind_desde c i visto [] = visto"
| "rfind_desde c i visto (x # xs) = rfind_desde c (i + 1) (if x = c then i else visto) xs"

definition rfind :: "string \<Rightarrow> char \<Rightarrow> int" where
  "rfind s c = rfind_desde c 0 (-1) s"

section \<open>Python floats\<close>

text \<open>
  A Python float is modelled by its exact value: a finite float is a rational number, and
  the three non-finite floats are kept apart. The rounding of IEEE 754 arithmetic (and with
  it overflow to infinity and underflow to zero) is not modelled.
\<close>

datatype flotante = Fin rat | MasInf | MenosInf | NaN

text \<open>\<^verbatim>\<open>f > 0\<close>.\<close>

fun positivo :: "flotante \<Rightarrow> bool" where
  "positivo (Fin r) = (0 < r)"
| "positivo MasInf = True"
| "positivo MenosInf = False"
| "positivo NaN = False"

text \<open>
  \<^verbatim>\<open>float(s)\<close> on a string, after the grammar of the language reference: optional white
  space around, an optional sign, then \<^verbatim>\<open>inf\<close>, \<^verbatim>\<open>infinity\<close> or \<^verbatim>\<open>nan\<close> in any case, or a
  decimal number with an optional fraction and an optional exponent; groups of digits may be
  separated by single underscores. \<open>None\<close> is \<^verbatim>\<open>ValueError\<close>.
\<close>

definition espacio_float :: "char \<Rightarrow> bool" where
  "espacio_float c = ((9 \<le> cp c \<and> cp c \<le> 13) \<or> cp c = 32 \<or> cp c = 133 \<or> cp c = 160)"

definition digito :: "char \<Rightarrow> bool" where
  "digito c = (48 \<le> cp c \<and> cp c \<le> 57)"

fun digitpart :: "string \<Rightarrow> bool" where
  "digitpart [] = False"
| "digitpart [c] = digito c"
| "digitpart (c # d # cs) =
     (digito c \<and> (if d = CHR ''_'' then digitpart cs else digitpart (d # cs)))"

definition valor_digitos :: "string \<Rightarrow> int" where
  "valor_digitos s = foldl (\<lambda>a c. 10 * a + (cp c - 48)) 0 (filter digito s)"

definition lower_ascii :: "string \<Rightarrow> string" where
  "lower_ascii s = map (\<lambda>c. if 65 \<le> cp c \<and> cp c \<le> 90 then char_of (cp c + 32) else c) s"

definition quitar_signo :: "string \<Rightarrow> bool \<times> string" where
  "quitar_signo s =
     (case s of
        [] \<Rightarrow> (False, [])
      | c # cs \<Rightarrow> if c = CHR ''-'' then (True, cs) else if c = CHR ''+'' then (False, cs) else (False, s))"

definition exponente :: "string \<Rightarrow> int option" where
  "exponente r =
     (case r of
        [] \<Rightarrow> Some 0
      | _ # ex \<Rightarrow>
          (let (neg, ds) = quitar_signo ex
           in if digitpart ds then Some (if neg then - valor_digitos ds else valor_digitos ds)
              else None))"

definition mantisa :: "string \<Rightarrow> rat option" where
  "mantisa m =
     (let ip = takeWhile (\<lambda>c. c \<noteq> CHR ''.'') m;
          r = dropWhile (\<lambda>c. c \<noteq> CHR ''.'') m
      in case r of
           [] \<Rightarrow> if digitpart ip then Some (of_int (valor_digitos ip)) else None
         | _ # fp \<Rightarrow>
             if fp = [] then (if digitpart ip then Some (of_int (valor_digitos ip)) else None)
             else if (ip = [] \<or> digitpart ip) \<and> digitpart fp
             then Some (of_int (valor_digitos ip)
                        + of_int (valor_digitos fp) / 10 ^ length (filter digito fp))
             else None)"

definition es_e :: "char \<Rightarrow> bool" where
  "es_e c = (c = CHR ''e'' \<or> c = CHR ''E'')"

definition py_float :: "string \<Rightarrow> flotante option" where
  "py_float s =
     (let t = rev (dropWhile espacio_float (rev (dropWhile espacio_float s)));
          (neg, cuerpo) = quitar_signo t
      in if lower_ascii cuerpo = ''inf'' \<or> lower_ascii cuerpo = ''infinity''
         then Some (if neg then MenosInf else MasInf)
         else if lower_ascii cuerpo = ''nan'' then Some NaN
         else
           (case (mantisa (takeWhile (\<lambda>c. \<not> es_e c) cuerpo),
                  exponente (dropWhile (\<lambda>c. \<not> es_e c) cuerpo)) of
              (Some m, Some e) \<Rightarrow>
                Some (Fin ((if neg then - m else m)
                           * (if 0 \<le> e then 10 ^ nat e else 1 / 10 ^ nat (- e))))
            | _ \<Rightarrow> None))"

section \<open>The numeric normalizer\<close>

text \<open>
  \<^verbatim>\<open>limpiar_precio\<close>, the price parser inside \<^verbatim>\<open>_limpieza_final\<close>. Its first line removes
  the currency markers; every exception of the body gives \<^verbatim>\<open>None\<close>.
\<close>

definition quitar_moneda :: "string \<Rightarrow> string" where
  "quitar_moneda val = replace ''EUR'' '''' (replace ''USD'' '''' (replace ''$'' '''' (strip val)))"

definition aceptar :: "flotante option \<Rightarrow> flotante option" where
  "aceptar r = (case r of None \<Rightarrow> None | Some f \<Rightarrow> if positivo f then Some f else None)"

definition limpiar_precio :: "string \<Rightarrow> flotante option" where
  "limpiar_precio v0 =
     (let val = quitar_moneda v0;
          val' =
            (if CHR '','' \<in> set val \<and> CHR ''.'' \<in> set val then
               (if rfind val (CHR '','') > rfind val (CHR ''.'')
                then replace '','' ''.'' (replace ''.'' '''' val)
                else replace '','' '''' val)
             else if CHR '','' \<in> set val then replace '','' ''.'' val
             else if CHR ''.'' \<in> set val then
               (let partes = split (CHR ''.'') val
                in if length partes > 1 \<and> length (last partes) = 3
                   then replace ''.'' '''' val else val)
             else val)
      in aceptar (py_float val'))"

section \<open>Dictionaries and sequences\<close>

text \<open>
  A Python \<^verbatim>\<open>dict\<close> is an association list in insertion order with distinct keys:
  \<^verbatim>\<open>d.get(k, v)\<close> is \<open>dget\<close>, \<^verbatim>\<open>d[k] = v\<close> is \<open>dset\<close> (an existing key keeps its
  place). \<^verbatim>\<open>xs[:k]\<close> and \<^verbatim>\<open>df.head(k)\<close> are \<open>hasta\<close>: a negative \<open>k\<close> counts from the end.
  \<^verbatim>\<open>xs[i]\<close> is \<open>py_index\<close>, \<open>None\<close> being \<^verbatim>\<open>IndexError\<close>.
\<close>

definition dget :: "('k \<times> 'v) list \<Rightarrow> 'k \<Rightarrow> 'v \<Rightarrow> 'v" where
  "dget d k v = (case map_of d k of None \<Rightarrow> v | Some w \<Rightarrow> w)"

definition dset :: "('k \<times> 'v) list \<Rightarrow> 'k \<Rightarrow> 'v \<Rightarrow> ('k \<times> 'v) list" where
  "dset d k v =
     (if k \<in> set (map fst d) then map (\<lambda>(k', w). if k' = k then (k', v) else (k', w)) d
      else d @ [(k, v)])"

definition hasta :: "int \<Rightarrow> 'a list \<Rightarrow> 'a list" where
  "hasta k xs = (if 0 \<le> k then take (nat k) xs else take (length xs - nat (- k)) xs)"

definition py_index :: "'a list \<Rightarrow> int \<Rightarrow> 'a option" where
  "py_index xs i =
     (let n = int (length xs)
      in if 0 \<le> i \<and> i < n then Some (xs ! nat i)
         else if - n \<le> i \<and> i < 0 then Some (xs ! nat (n + i))
         else None)"

datatype py_error = KeyError | IndexError

section \<open>Tables\<close>

text \<open>
  A \<^verbatim>\<open>DataFrame\<close> of strings (the grid after \<^verbatim>\<open>df.astype(str)\<close>, where a missing cell
  reads \<^verbatim>\<open>nan\<close>): its column labels, which are positions for a grid read without header
  and names after a renaming, and its rows, each as long as the list of labels. The labels
  are distinct, as they are in every grid the readers build. A cleaned table is a list of
  rows with the three columns the engine reads afterwards.
\<close>

datatype etiqueta = Pos nat | Nom string

record marco =
  columnas :: "etiqueta list"
  filas :: "string list list"

record fila =
  Codigo :: string
  Producto :: string
  Precio_de_Costo :: flotante

fun indice_de :: "etiqueta \<Rightarrow> etiqueta list \<Rightarrow> nat option" where
  "indice_de l [] = None"
| "indice_de l (x # xs) = (if x = l then Some 0 else map_option Suc (indice_de l xs))"

text \<open>\<^verbatim>\<open>df.rename(columns=mapa)\<close> and \<^verbatim>\<open>if "Codigo" not in df.columns: df["Codigo"] = ""\<close>.\<close>

definition rename :: "marco \<Rightarrow> (etiqueta \<times> string) list \<Rightarrow> marco" where
  "rename df mapa =
     df\<lparr>columnas := map (\<lambda>l. case map_of mapa l of None \<Rightarrow> l | Some n \<Rightarrow> Nom n) (columnas df)\<rparr>"

definition asegurar_codigo :: "marco \<Rightarrow> marco" where
  "asegurar_codigo df =
     (if Nom ''Codigo'' \<in> set (columnas df) then df
      else \<lparr>columnas = columnas df @ [Nom ''Codigo''], filas = map (\<lambda>r. r @ [[]]) (filas df)\<rparr>)"

text \<open>
  \<^verbatim>\<open>_limpieza_final\<close>: the price column is parsed and the rows without a price dropped, the
  product is stripped and the rows whose product has at most one character dropped, the
  code is stripped and the cell \<^verbatim>\<open>nan\<close> emptied. A missing column is a \<^verbatim>\<open>KeyError\<close>.
\<close>

definition limpiar_fila :: "nat \<Rightarrow> nat \<Rightarrow> nat \<Rightarrow> string list \<Rightarrow> fila option" where
  "limpiar_fila ipre ipro icod r =
     (case limpiar_precio (r ! ipre) of
        None \<Rightarrow> None
      | Some f \<Rightarrow>
          if length (strip (r ! ipro)) > 1
          then Some \<lparr>Codigo = (if strip (r ! icod) = ''nan'' then [] else strip (r ! icod)),
                     Producto = strip (r ! ipro), Precio_de_Costo = f\<rparr>
          else None)"

definition limpieza_final :: "marco \<Rightarrow> py_error + fila list" where
  "limpieza_final df =
     (case indice_de (Nom ''Precio de Costo'') (columnas df) of
        None \<Rightarrow> Inl KeyError
      | Some ipre \<Rightarrow>
          (case indice_de (Nom ''Producto'') (columnas df) of
             None \<Rightarrow> Inl KeyError
           | Some ipro \<Rightarrow>
               (case indice_de (Nom ''Codigo'') (columnas df) of
                  None \<Rightarrow> Inl KeyError
                | Some icod \<Rightarrow> Inr (List.map_filter (limpiar_fila ipre ipro icod) (filas df)))))"

section \<open>Schema inference\<close>

text \<open>The cell predicates of the automatic mode.\<close>

definition proporcion :: "(char \<Rightarrow> bool) \<Rightarrow> string \<Rightarrow> rat" where
  "proporcion p t = of_nat (length (filter p t)) / of_nat (length t)"

definition es_numero_posible :: "string \<Rightarrow> bool" where
  "es_numero_posible texto =
     (let t = lower (quitar_moneda texto)
      in if t = [] \<or> t = ''nan'' then False else proporcion isdigit t > 1 / 2)"

definition tiene_decimales :: "string \<Rightarrow> bool" where
  "tiene_decimales texto = (CHR '','' \<in> set (strip texto) \<or> CHR ''.'' \<in> set (strip texto))"

definition es_producto :: "string \<Rightarrow> bool" where
  "es_producto texto =
     (let t = strip texto
      in if length t < 4 \<or> lower t = ''nan'' then False
         else proporcion (\<lambda>c. isalpha c \<or> isspace c) t > 6 / 10)"

definition es_codigo :: "string \<Rightarrow> bool" where
  "es_codigo texto =
     (let t = strip texto
      in if lower t = ''nan'' then False
         else 1 < length t \<and> length t < 18 \<and> (\<exists>c \<in> set t. isdigit c))"

text \<open>
  The four scores of one column over its sample. The source computes them in floating
  point; here they are exact rationals.
\<close>

record puntaje =
  s_precio :: rat
  s_decimales :: rat
  s_producto :: rat
  s_codigo :: rat

definition cuenta :: "('a \<Rightarrow> bool) \<Rightarrow> 'a list \<Rightarrow> rat" where
  "cuenta p xs = of_nat (length (filter p xs))"

definition puntuar :: "string list \<Rightarrow> puntaje" where
  "puntuar muestra =
     (let total = of_nat (length muestra);
          muestra_str = map strip muestra;
          ratio_unicidad = of_nat (length (remdups muestra_str)) / total;
          avg_len = of_nat (sum_list (map length muestra_str)) / total
      in \<lparr>s_precio = cuenta es_numero_posible muestra / total,
          s_decimales = cuenta (\<lambda>x. es_numero_posible x \<and> tiene_decimales x) muestra / total,
          s_producto = (cuenta es_producto muestra / total) * avg_len,
          s_codigo = (cuenta es_codigo muestra / total) * ratio_unicidad\<rparr>)"

text \<open>\<^verbatim>\<open>range(0, total_filas, step)\<close>.\<close>

definition indices_muestra :: "nat \<Rightarrow> nat list" where
  "indices_muestra total_filas =
     (let step = max 1 (total_filas div 200)
      in map (\<lambda>k. k * step) [0 ..< (total_filas + step - 1) div step])"

definition puntajes :: "nat \<Rightarrow> marco \<Rightarrow> (etiqueta \<times> puntaje) list" where
  "puntajes total_filas df =
     map (\<lambda>(j, col). (col, puntuar (map (\<lambda>i. filas df ! i ! j) (indices_muestra total_filas))))
       (zip [0 ..< length (columnas df)] (columnas df))"

text \<open>
  The tie-break loop over the price candidates after the leader; \<^verbatim>\<open>max(d, key=d.get)\<close>,
  which keeps the first maximal key; the loop that chooses the code column.
\<close>

fun desempate :: "(etiqueta \<Rightarrow> puntaje) \<Rightarrow> etiqueta \<Rightarrow> etiqueta \<Rightarrow> etiqueta list \<Rightarrow> etiqueta" where
  "desempate sc best_col match_col [] = match_col"
| "desempate sc best_col match_col (cand # resto) =
     (if s_precio (sc best_col) - s_precio (sc cand) < 2 / 10
      then (if s_decimales (sc cand) > s_decimales (sc best_col) + 1 / 10
            then desempate sc cand cand resto
            else desempate sc best_col match_col resto)
      else match_col)"

fun primer_max :: "('a \<times> rat) \<Rightarrow> ('a \<times> rat) list \<Rightarrow> 'a" where
  "primer_max (k, v) [] = k"
| "primer_max (k, v) ((k', v') # resto) =
     (if v' > v then primer_max (k', v') resto else primer_max (k, v) resto)"

fun elegir_codigo :: "etiqueta list \<Rightarrow> nat \<Rightarrow> etiqueta option \<Rightarrow> rat \<Rightarrow> (etiqueta \<times> rat) list \<Rightarrow> etiqueta option" where
  "elegir_codigo cols idx_prod best_cand best_final_score [] = best_cand"
| "elegir_codigo cols idx_prod best_cand best_final_score ((cand, s) # resto) =
     (let score_base =
            (case indice_de cand cols of
               None \<Rightarrow> s
             | Some idx_cand \<Rightarrow> if idx_cand < idx_prod then s * 2 else s * (1 / 2))
      in if score_base > best_final_score
         then elegir_codigo cols idx_prod (Some cand) score_base resto
         else elegir_codigo cols idx_prod best_cand best_final_score resto)"

text \<open>Truth value of a column label: the position 0 and the empty name are false.\<close>

fun verdadera :: "etiqueta \<Rightarrow> bool" where
  "verdadera (Pos n) = (n \<noteq> 0)"
| "verdadera (Nom s) = (s \<noteq> [])"

text \<open>
  The choice of the columns in the automatic mode: \<open>None\<close> where the source returns an empty
  table, else the product column, the price column and the code column if any.
\<close>

definition elegir_columnas :: "etiqueta list \<Rightarrow> (etiqueta \<times> puntaje) list \<Rightarrow> (etiqueta \<times> etiqueta \<times> etiqueta option) option" where
  "elegir_columnas cols scores =
     (let sc = (\<lambda>c. dget scores c \<lparr>s_precio = 0, s_decimales = 0, s_producto = 0, s_codigo = 0\<rparr>)
      in if length cols = 2 then
           (let c0 = cols ! 0; c1 = cols ! 1
            in if s_precio (sc c1) > 3 / 10 \<and> s_producto (sc c0) > 3 / 10 then Some (c0, c1, None)
               else if s_precio (sc c0) > 3 / 10 \<and> s_producto (sc c1) > 3 / 10 then Some (c1, c0, None)
               else None)
         else
           (case sort_key (\<lambda>c. - s_precio (sc c)) (filter (\<lambda>c. s_precio (sc c) > 1 / 10) (map fst scores)) of
              [] \<Rightarrow> None
            | best_col # otros \<Rightarrow>
                (let col_precio = desempate sc best_col best_col otros
                 in case filter (\<lambda>(k, v). v > 1 / 2)
                           (filter (\<lambda>(k, v). k \<noteq> col_precio) (map (\<lambda>(k, p). (k, s_producto p)) scores)) of
                      [] \<Rightarrow> None
                    | kv # resto \<Rightarrow>
                        (let col_producto = primer_max kv resto;
                             candidatos_cod =
                               filter (\<lambda>(k, v). v > 5 / 100)
                                 (filter (\<lambda>(k, v). k \<noteq> col_precio \<and> k \<noteq> col_producto)
                                    (map (\<lambda>(k, p). (k, s_codigo p)) scores));
                             idx_prod = (case indice_de col_producto cols of None \<Rightarrow> 999 | Some i \<Rightarrow> i)
                         in Some (col_producto, col_precio,
                                  elegir_codigo cols idx_prod None (- 1) candidatos_cod)))))"

text \<open>
  The automatic mode, from the sampling on. \<open>total_filas\<close> is the number of rows counted
  before the manual mode ran: after a manual mapping that skipped rows and then failed, the
  sample may point beyond the last row, and \<^verbatim>\<open>iloc\<close> raises.
\<close>

definition modo_automatico :: "nat \<Rightarrow> marco \<Rightarrow> py_error + fila list" where
  "modo_automatico total_filas df =
     (if columnas df = [] then Inr []
      else if \<exists>i \<in> set (indices_muestra total_filas). length (filas df) \<le> i then Inl IndexError
      else
        (case elegir_columnas (columnas df) (puntajes total_filas df) of
           None \<Rightarrow> Inr []
         | Some (col_producto, col_precio, col_codigo) \<Rightarrow>
             if \<not> verdadera col_producto \<or> \<not> verdadera col_precio then Inr []
             else
               (let mapa = dset (dset [] col_producto ''Producto'') col_precio ''Precio de Costo'';
                    mapa' = (case col_codigo of
                               None \<Rightarrow> mapa
                             | Some c \<Rightarrow> if verdadera c then dset mapa c ''Codigo'' else mapa)
                in limpieza_final (asegurar_codigo (rename df mapa')))))"

text \<open>
  The manual mode. The mapping is the JSON object next to the file, with integer values.
  The result is \<open>Inl\<close> of what the function returns from inside the \<^verbatim>\<open>try\<close>, or \<open>Inr\<close> of the
  grid (rows already skipped) with which the \<^verbatim>\<open>except\<close> branch falls to the automatic mode.
\<close>

definition modo_manual :: "marco \<Rightarrow> (string \<times> int) list \<Rightarrow> (py_error + fila list) + marco" where
  "modo_manual df0 mapeo_manual =
     (let skip = dget mapeo_manual ''skip_rows'' 0;
          df = (if skip > 0 then df0\<lparr>filas := drop (nat skip) (filas df0)\<rparr> else df0);
          idx_prod = dget mapeo_manual ''col_producto'' (- 1);
          idx_precio = dget mapeo_manual ''col_precio'' (- 1);
          idx_cod = dget mapeo_manual ''col_codigo'' (- 1);
          max_idx = int (length (columnas df)) - 1
      in if idx_prod > max_idx \<or> idx_precio > max_idx then Inl (Inr [])
         else
           (case (py_index (columnas df) idx_prod, py_index (columnas df) idx_precio) of
              (Some col_nombre_prod, Some col_nombre_precio) \<Rightarrow>
                (let mapa = dset (dset [] col_nombre_prod ''Producto'') col_nombre_precio ''Precio de Costo'';
                     mapa' = (if idx_cod \<ge> 0 \<and> idx_cod \<le> max_idx
                              then dset mapa (columnas df ! nat idx_cod) ''Codigo'' else mapa)
                 in case limpieza_final (asegurar_codigo (rename df mapa')) of
                      Inr t \<Rightarrow> Inl (Inr t)
                    | Inl e \<Rightarrow> Inr df)
            | _ \<Rightarrow> Inr df))"

text \<open>\<^verbatim>\<open>_procesar_dataframe_inteligente\<close>; an empty or absent mapping is false.\<close>

definition procesar_dataframe_inteligente :: "marco \<Rightarrow> (string \<times> int) list option \<Rightarrow> py_error + fila list" where
  "procesar_dataframe_inteligente df mapeo_manual =
     (if Nom ''Producto'' \<in> set (columnas df) \<and> Nom ''Precio de Costo'' \<in> set (columnas df)
      then limpieza_final (asegurar_codigo df)
      else
        (let total_filas = length (filas df)
         in if total_filas = 0 then Inr []
            else
              (case mapeo_manual of
                 None \<Rightarrow> modo_automatico total_filas df
               | Some m \<Rightarrow>
                   if m = [] then modo_automatico total_filas df
                   else (case modo_manual df m of
                           Inl r \<Rightarrow> r
                         | Inr df' \<Rightarrow> modo_automatico total_filas df'))))"

section \<open>The engine and its configuration\<close>

text \<open>
  An entry of \<^verbatim>\<open>margenes_por_proveedor\<close> is a number (the markup alone) or a record with
  the keys \<^verbatim>\<open>margen\<close>, \<^verbatim>\<open>desc1\<close>, \<^verbatim>\<open>desc2\<close>. The engine \<^verbatim>\<open>MotorPrecios\<close> holds the catalog
  (supplier name to cleaned table, in insertion order) and the configuration it has read.
\<close>

datatype entrada = Escalar rat | Registro "(string \<times> rat) list"

record motor =
  proveedores :: "(string \<times> fila list) list"
  margenes :: "(string \<times> entrada) list"
  margen_default :: rat
  umbral_fuzzy :: int
  moneda :: string
  drive_folder_id :: string






text \<open>\<^verbatim>\<open>obtener_info_config\<close>.\<close>

definition obtener_info_config :: "motor \<Rightarrow> string \<Rightarrow> (string \<times> rat) list" where
  "obtener_info_config m proveedor =
     (case dget (margenes m) proveedor (Escalar (margen_default m)) of
        Registro raw \<Rightarrow>
          [(''margen'', dget raw ''margen'' 0), (''desc1'', dget raw ''desc1'' 0),
           (''desc2'', dget raw ''desc2'' 0)]
      | Escalar raw \<Rightarrow> [(''margen'', raw), (''desc1'', 0), (''desc2'', 0)])"

section \<open>The price model\<close>

text \<open>
  A float times a finite factor, and \<^verbatim>\<open>round(x, 2)\<close>: on a finite value the nearest multiple
  of 1/100, a tie going to the even one; the non-finite floats round to themselves.
\<close>

fun por :: "flotante \<Rightarrow> rat \<Rightarrow> flotante" where
  "por (Fin a) b = Fin (a * b)"
| "por MasInf b = (if b > 0 then MasInf else if b < 0 then MenosInf else NaN)"
| "por MenosInf b = (if b > 0 then MenosInf else if b < 0 then MasInf else NaN)"
| "por NaN b = NaN"

definition round2 :: "rat \<Rightarrow> rat" where
  "round2 r =
     (let s = r * 100; f = \<lfloor>s\<rfloor>; d = s - of_int f
      in of_int (if d < 1 / 2 then f else if d > 1 / 2 then f + 1 else if even f then f else f + 1) / 100)"

fun redondear :: "flotante \<Rightarrow> flotante" where
  "redondear (Fin r) = Fin (round2 r)"
| "redondear MasInf = MasInf"
| "redondear MenosInf = MenosInf"
| "redondear NaN = NaN"

text \<open>\<^verbatim>\<open>calcular_precio_final\<close>.\<close>

definition calcular_precio_final :: "flotante \<Rightarrow> (string \<times> rat) list \<Rightarrow> flotante" where
  "calcular_precio_final precio_costo config =
     (let costo_neto = precio_costo;
          d1 = dget config ''desc1'' 0;
          costo_neto = (if d1 > 0 then por costo_neto (1 - d1 / 100) else costo_neto);
          d2 = dget config ''desc2'' 0;
          costo_neto = (if d2 > 0 then por costo_neto (1 - d2 / 100) else costo_neto);
          margen = dget config ''margen'' 0;
          precio_venta = por costo_neto (1 + margen / 100)
      in redondear precio_venta)"

section \<open>Search\<close>

text \<open>The dictionary that \<^verbatim>\<open>buscar_producto\<close> builds for each result.\<close>

record hit =
  codigo :: string
  producto :: string
  proveedor :: string
  precio_costo :: flotante
  config :: "(string \<times> rat) list"
  precio_final :: flotante
  score_busqueda :: int

text \<open>
  The cost of a row of the catalog is a float, which \<^verbatim>\<open>float(str(...))\<close> reads back
  unchanged, so \<^verbatim>\<open>pc\<close> is the cost of the row.
\<close>

definition hacer_hit :: "string \<Rightarrow> (string \<times> rat) list \<Rightarrow> int \<Rightarrow> fila \<Rightarrow> hit" where
  "hacer_hit nom_prov cfg score row =
     \<lparr>codigo = Codigo row, producto = Producto row, proveedor = nom_prov,
      precio_costo = Precio_de_Costo row, config = cfg,
      precio_final = calcular_precio_final (Precio_de_Costo row) cfg,
      score_busqueda = score\<rparr>"

text \<open>
  \<^verbatim>\<open>Series.str.contains(consulta)\<close> searches a regular expression. A pattern without any
  special character of the regular-expression syntax matches where it occurs as a substring;
  for the others the engine of regular expressions is a parameter \<open>re\<close>, which gives the
  matcher of a pattern, or \<open>None\<close> when the pattern does not compile (\<^verbatim>\<open>re.error\<close>).
\<close>

definition especiales :: "char list" where
  "especiales = ''.^$*+?{}[]|()'' @ [CHR 0x5C]"

definition str_contains :: "(string \<Rightarrow> (string \<Rightarrow> bool) option) \<Rightarrow> string \<Rightarrow> (string \<Rightarrow> bool) option" where
  "str_contains re pat =
     (if \<forall>c \<in> set pat. c \<notin> set especiales then Some (contiene pat) else re pat)"

text \<open>\<^verbatim>\<open>if proveedor_target and nom_prov != proveedor_target: continue\<close>.\<close>

definition saltar :: "string option \<Rightarrow> string \<Rightarrow> bool" where
  "saltar proveedor_target nom_prov =
     (case proveedor_target of None \<Rightarrow> False | Some t \<Rightarrow> t \<noteq> [] \<and> nom_prov \<noteq> t)"

text \<open>
  The first loop (exact phase) over the suppliers, with the results so far. A supplier that
  is filtered out, has no rows, or whose search raises is passed over by \<^verbatim>\<open>continue\<close>; after
  a supplier that was searched the loop ends as soon as \<^verbatim>\<open>2 * limite\<close> results are held.
\<close>

definition exactos :: "motor \<Rightarrow> (string \<Rightarrow> bool) \<Rightarrow> int \<Rightarrow> string \<Rightarrow> fila list \<Rightarrow> hit list" where
  "exactos m coincide limite nom_prov df =
     map (hacer_hit nom_prov (obtener_info_config m nom_prov) 100)
       (hasta limite (filter (\<lambda>row. coincide (lower (Producto row)) \<or> coincide (lower (Codigo row))) df))"

fun bucle_exacto :: "motor \<Rightarrow> (string \<Rightarrow> (string \<Rightarrow> bool) option) \<Rightarrow> string \<Rightarrow> int \<Rightarrow> string option
    \<Rightarrow> hit list \<Rightarrow> (string \<times> fila list) list \<Rightarrow> hit list" where
  "bucle_exacto m re consulta limite tgt resultados [] = resultados"
| "bucle_exacto m re consulta limite tgt resultados ((nom_prov, df) # resto) =
     (if saltar tgt nom_prov then bucle_exacto m re consulta limite tgt resultados resto
      else if df = [] then bucle_exacto m re consulta limite tgt resultados resto
      else
        (case str_contains re consulta of
           None \<Rightarrow> bucle_exacto m re consulta limite tgt resultados resto
         | Some coincide \<Rightarrow>
             (let resultados' = resultados @ exactos m coincide limite nom_prov df
              in if int (length resultados') \<ge> limite * 2 then resultados'
                 else bucle_exacto m re consulta limite tgt resultados' resto)))"

text \<open>
  The second loop (fuzzy phase). \<^verbatim>\<open>process.extract\<close> of the fuzzy-matching library, called
  with \<^verbatim>\<open>limit=5\<close> and the partial-token-sort scorer, is the parameter \<open>extract\<close>: from the
  query and the products of one supplier to pairs of a product and its score.
\<close>

fun agregar_matches :: "motor \<Rightarrow> string \<Rightarrow> fila list \<Rightarrow> hit list \<Rightarrow> (string \<times> int) list \<Rightarrow> hit list" where
  "agregar_matches m nom_prov df resultados [] = resultados"
| "agregar_matches m nom_prov df resultados ((m_str, score) # matches) =
     (if score < umbral_fuzzy m then agregar_matches m nom_prov df resultados matches
      else if \<exists>r \<in> set resultados. producto r = m_str \<and> proveedor r = nom_prov
      then agregar_matches m nom_prov df resultados matches
      else
        (case find (\<lambda>row. Producto row = m_str) df of
           None \<Rightarrow> agregar_matches m nom_prov df resultados matches
         | Some row \<Rightarrow>
             agregar_matches m nom_prov df
               (resultados @ [hacer_hit nom_prov (obtener_info_config m nom_prov) score row]) matches))"

fun bucle_fuzzy :: "motor \<Rightarrow> (string \<Rightarrow> string list \<Rightarrow> (string \<times> int) list) \<Rightarrow> string \<Rightarrow> string option
    \<Rightarrow> hit list \<Rightarrow> (string \<times> fila list) list \<Rightarrow> hit list" where
  "bucle_fuzzy m extract consulta tgt resultados [] = resultados"
| "bucle_fuzzy m extract consulta tgt resultados ((nom_prov, df) # resto) =
     (if saltar tgt nom_prov then bucle_fuzzy m extract consulta tgt resultados resto
      else if df = [] then bucle_fuzzy m extract consulta tgt resultados resto
      else bucle_fuzzy m extract consulta tgt
             (agregar_matches m nom_prov df resultados (extract consulta (map Producto df))) resto)"

text \<open>
  \<^verbatim>\<open>buscar_producto\<close> of \<^verbatim>\<open>MotorPrecios\<close>: both phases, then the stable sort by descending
  score and the cut at \<^verbatim>\<open>limite\<close>.
\<close>

definition fase_exacta :: "motor \<Rightarrow> (string \<Rightarrow> (string \<Rightarrow> bool) option) \<Rightarrow> string \<Rightarrow> int \<Rightarrow> string option \<Rightarrow> hit list" where
  "fase_exacta m re consulta limite tgt =
     bucle_exacto m re (strip (lower consulta)) limite tgt [] (proveedores m)"

definition fase_fuzzy :: "motor \<Rightarrow> (string \<Rightarrow> (string \<Rightarrow> bool) option) \<Rightarrow> (string \<Rightarrow> string list \<Rightarrow> (string \<times> int) list)
    \<Rightarrow> string \<Rightarrow> int \<Rightarrow> string option \<Rightarrow> hit list" where
  "fase_fuzzy m re extract consulta limite tgt =
     (let resultados = fase_exacta m re consulta limite tgt
      in if length resultados < 5 \<and> length (strip (lower consulta)) > 3
         then bucle_fuzzy m extract (strip (lower consulta)) tgt resultados (proveedores m)
         else resultados)"

definition buscar_producto :: "motor \<Rightarrow> (string \<Rightarrow> (string \<Rightarrow> bool) option) \<Rightarrow> (string \<Rightarrow> string list \<Rightarrow> (string \<times> int) list)
    \<Rightarrow> string \<Rightarrow> int \<Rightarrow> string option \<Rightarrow> hit list" where
  "buscar_producto m re extract consulta limite tgt =
     hasta limite (sort_key (\<lambda>x. - score_busqueda x) (fase_fuzzy m re extract consulta limite tgt))"

text \<open>The results that the second phase adds after those of the first.\<close>

definition difusos :: "motor \<Rightarrow> (string \<Rightarrow> (string \<Rightarrow> bool) option) \<Rightarrow> (string \<Rightarrow> string list \<Rightarrow> (string \<times> int) list)
    \<Rightarrow> string \<Rightarrow> int \<Rightarrow> string option \<Rightarrow> hit list" where
  "difusos m re extract consulta limite tgt =
     drop (length (fase_exacta m re consulta limite tgt)) (fase_fuzzy m re extract consulta limite tgt)"

section \<open>The lightweight engine\<close>

text \<open>
  \<^verbatim>\<open>MotorMobileLite\<close> of \<^verbatim>\<open>motor_mobile_lite.py\<close> searches a list of products read from a
  JSON file, each with its product, code, supplier and cost, by plain substring tests. Its
  \<^verbatim>\<open>buscar_producto\<close> returns at once on a query that is empty after lowering and stripping;
  otherwise it collects the matching products, each with its price, and stops when
  \<^verbatim>\<open>limite\<close> results are held.
\<close>

record producto_lite =
  p_producto :: string
  p_codigo :: string
  p_proveedor :: string
  p_precio_costo :: flotante

record motor_lite =
  productos :: "producto_lite list"
  l_margenes :: "(string \<times> entrada) list"
  l_margen_default :: rat

definition obtener_info_config_lite :: "motor_lite \<Rightarrow> string \<Rightarrow> (string \<times> rat) list" where
  "obtener_info_config_lite m prov =
     (case dget (l_margenes m) prov (Escalar (l_margen_default m)) of
        Registro raw \<Rightarrow>
          [(''margen'', dget raw ''margen'' 0), (''desc1'', dget raw ''desc1'' 0),
           (''desc2'', dget raw ''desc2'' 0)]
      | Escalar raw \<Rightarrow> [(''margen'', raw), (''desc1'', 0), (''desc2'', 0)])"

definition calcular_precio_final_lite :: "motor_lite \<Rightarrow> producto_lite \<Rightarrow> flotante" where
  "calcular_precio_final_lite m item =
     calcular_precio_final (p_precio_costo item) (obtener_info_config_lite m (p_proveedor item))"

fun bucle_lite :: "motor_lite \<Rightarrow> string \<Rightarrow> int \<Rightarrow> (producto_lite \<times> flotante) list \<Rightarrow> producto_lite list
    \<Rightarrow> (producto_lite \<times> flotante) list" where
  "bucle_lite m consulta limite resultados [] = resultados"
| "bucle_lite m consulta limite resultados (p # ps) =
     (if contiene consulta (lower (p_producto p)) \<or> contiene consulta (lower (p_codigo p))
         \<or> contiene consulta (lower (p_proveedor p))
      then (let resultados' = resultados @ [(p, calcular_precio_final_lite m p)]
            in if int (length resultados') \<ge> limite then resultados'
               else bucle_lite m consulta limite resultados' ps)
      else bucle_lite m consulta limite resultados ps)"

definition buscar_producto_lite :: "motor_lite \<Rightarrow> string \<Rightarrow> int \<Rightarrow> (producto_lite \<times> flotante) list" where
  "buscar_producto_lite m consulta limite =
     (if strip (lower consulta) = [] then []
      else bucle_lite m (strip (lower consulta)) limite [] (productos m))"

section \<open>Example data\<close>

text \<open>The engine as \<^verbatim>\<open>__init__\<close> sets it up before anything is loaded.\<close>

definition motor_inicial :: motor where
  "motor_inicial =
     \<lparr>proveedores = [], margenes = [], margen_default = 20, umbral_fuzzy = 60,
      moneda = ''ARS'', drive_folder_id = []\<rparr>"


definition catalogo_ejemplo :: "(string \<times> fila list) list" where
  "catalogo_ejemplo =
     [(''A'', [\<lparr>Codigo = [], Producto = ''Martillo de bola'', Precio_de_Costo = Fin 1000\<rparr>]),
      (''B'', [\<lparr>Codigo = [], Producto = ''Martillo Bola'', Precio_de_Costo = Fin 10\<rparr>]),
      (''C'', [\<lparr>Codigo = [], Producto = ''Martillo de goma'', Precio_de_Costo = Fin 20\<rparr>])]"

definition motor_ejemplo :: motor where
  "motor_ejemplo = motor_inicial\<lparr>proveedores := catalogo_ejemplo, margenes := [(''A'', Escalar 50)]\<rparr>"


text \<open>
  The regular-expression engine and the fuzzy matcher used in the examples. The queries of
  the examples have no special character, so the engine is never asked. The matcher is
  asked once, for the query \<^verbatim>\<open>bola martillo\<close> against the single product \<^verbatim>\<open>Martillo Bola\<close>:
  the library lowers both strings and sorts their words, which gives \<^verbatim>\<open>bola martillo\<close>
  twice, and the ratio of a string with itself is 100. On any other call the value below is
  not meant to be the library's.
\<close>

definition re_ejemplo :: "string \<Rightarrow> (string \<Rightarrow> bool) option" where
  "re_ejemplo pat = None"

definition extract_ejemplo :: "string \<Rightarrow> string list \<Rightarrow> (string \<times> int) list" where
  "extract_ejemplo consulta pool =
     (if consulta = ''bola martillo'' \<and> pool = [''Martillo Bola''] then [(''Martillo Bola'', 100)] else [])"

text \<open>
  A labelled table as the extractor for one supplier builds it, and a grid read without
  header whose product and price are the second and third columns, with the table that the
  automatic mode makes of the grid.
\<close>

definition marco_ejemplo :: marco where
  "marco_ejemplo =
     \<lparr>columnas = [Nom ''Producto'', Nom ''Precio de Costo''],
      filas = [['' Martillo de bola '', ''$ 108.200''], ['' x '', ''10''], [''Clavo'', ''0''],
               [''Tornillo'', ''consultar'']]\<rparr>"

definition grilla_ejemplo :: marco where
  "grilla_ejemplo =
     \<lparr>columnas = [Pos 0, Pos 1, Pos 2],
      filas = [[''x'', ''Martillo de bola'', ''108.200''], [''y'', ''Taladro percutor'', ''1.234,56'']]\<rparr>"

definition filas_ejemplo :: "fila list" where
  "filas_ejemplo =
     [\<lparr>Codigo = [], Producto = ''Martillo de bola'', Precio_de_Costo = Fin 108200\<rparr>,
      \<lparr>Codigo = [], Producto = ''Taladro percutor'', Precio_de_Costo = Fin (30864 / 25)\<rparr>]"

section \<open>The dot rule as the specification words it\<close>




section \<open>The numeric normalizer and the final cleanup\<close>














lemma dropWhile_igual: "xs = [] \<or> \<not> P (hd xs) \<Longrightarrow> dropWhile P xs = xs"
  by (cases xs) auto

lemma strip_strip: "strip (strip s) = strip s"
proof -
  define u where "u = dropWhile isspace s"
  define w where "w = dropWhile isspace (rev u)"
  have s: "strip s = rev w"
    by (simp add: strip_def u_def w_def)
  have hw: "w = [] \<or> \<not> isspace (hd w)"
    unfolding w_def using hd_dropWhile [of isspace "rev u"] by blast
  have hu: "u = [] \<or> \<not> isspace (hd u)"
    unfolding u_def using hd_dropWhile [of isspace s] by blast
  have lw: "w = [] \<or> \<not> isspace (last w)"
  proof (cases "w = []")
    case True
    then show ?thesis by simp
  next
    case False
    have "rev u = takeWhile isspace (rev u) @ w"
      by (simp add: w_def)
    then have "last (rev u) = last w"
      using False by (metis last_appendR)
    moreover have "u \<noteq> []"
      using False by (auto simp: w_def)
    ultimately show ?thesis
      using hu by (simp add: last_rev)
  qed
  have "dropWhile isspace (rev w) = rev w"
    using lw by (intro dropWhile_igual) (auto simp: hd_rev)
  moreover have "dropWhile isspace w = w"
    using hw by (rule dropWhile_igual)
  ultimately have "strip (rev w) = rev w"
    unfolding strip_def by simp
  then show ?thesis
    unfolding s .
qed

lemma aceptar_positivo: "aceptar r = Some f \<Longrightarrow> positivo f"
  by (auto simp: aceptar_def split: option.splits if_splits)

lemma limpiar_precio_positivo: "limpiar_precio v = Some f \<Longrightarrow> positivo f"
  by (auto simp: limpiar_precio_def Let_def dest: aceptar_positivo)

lemma limpiar_fila_ok:
  "limpiar_fila ipre ipro icod r = Some x \<Longrightarrow> positivo (Precio_de_Costo x) \<and> 1 < length (strip (Producto x))"
  by (auto simp: limpiar_fila_def strip_strip split: option.splits if_splits dest: limpiar_precio_positivo)

lemma limpieza_final_ok:
  "limpieza_final df = Inr t \<Longrightarrow> x \<in> set t \<Longrightarrow> positivo (Precio_de_Costo x) \<and> 1 < length (strip (Producto x))"
proof -
  assume t: "limpieza_final df = Inr t" and x: "x \<in> set t"
  from t obtain ipre ipro icod where "t = List.map_filter (limpiar_fila ipre ipro icod) (filas df)"
    by (auto simp: limpieza_final_def split: option.splits)
  with x obtain r where "limpiar_fila ipre ipro icod r = Some x"
    by (auto simp: List.map_filter_def)
  then show ?thesis
    by (rule limpiar_fila_ok)
qed

lemma modo_automatico_casos:
  "modo_automatico n df = Inr t \<Longrightarrow> t = [] \<or> (\<exists>df'. limpieza_final df' = Inr t)"
  by (auto simp: modo_automatico_def Let_def split: if_splits option.splits prod.splits)

lemma modo_manual_casos:
  "modo_manual df m = Inl (Inr t) \<Longrightarrow> t = [] \<or> (\<exists>df'. limpieza_final df' = Inr t)"
  by (auto simp: modo_manual_def Let_def split: if_splits option.splits prod.splits sum.splits)

lemma procesar_casos:
  "procesar_dataframe_inteligente df mm = Inr t \<Longrightarrow> t = [] \<or> (\<exists>df'. limpieza_final df' = Inr t)"
  by (auto simp: procesar_dataframe_inteligente_def Let_def
      split: if_splits option.splits sum.splits dest: modo_automatico_casos modo_manual_casos)

text \<open>
  C3. Every row of a table that \<^verbatim>\<open>_limpieza_final\<close> returns has a strictly positive cost
  and a product that is stripped and longer than one character; the same holds for every
  row that \<^verbatim>\<open>_procesar_dataframe_inteligente\<close> returns, whichever of its paths (labelled
  grid, manual mapping, automatic mode) produced it.
\<close>

theorem limpieza_final_invariante:
  "(limpieza_final df = Inr t \<longrightarrow>
      (\<forall>r \<in> set t. positivo (Precio_de_Costo r) \<and> 1 < length (strip (Producto r))))
   \<and> (procesar_dataframe_inteligente df' mm = Inr t' \<longrightarrow>
      (\<forall>r \<in> set t'. positivo (Precio_de_Costo r) \<and> 1 < length (strip (Producto r))))"
  using limpieza_final_ok procesar_casos [of df' mm t'] by fastforce

theorem limpieza_final_invariante_witness:
  "limpieza_final (asegurar_codigo marco_ejemplo)
     = Inr [\<lparr>Codigo = [], Producto = ''Martillo de bola'', Precio_de_Costo = Fin 108200\<rparr>]
   \<and> procesar_dataframe_inteligente grilla_ejemplo None = Inr filas_ejemplo
   \<and> positivo (Precio_de_Costo (filas_ejemplo ! 0)) \<and> 1 < length (strip (Producto (filas_ejemplo ! 0)))
   \<and> positivo (Precio_de_Costo (filas_ejemplo ! 1)) \<and> 1 < length (strip (Producto (filas_ejemplo ! 1)))"
proof -
  have a: "limpieza_final (asegurar_codigo marco_ejemplo)
     = Inr [\<lparr>Codigo = [], Producto = ''Martillo de bola'', Precio_de_Costo = Fin 108200\<rparr>]"
    by code_simp
  have b: "procesar_dataframe_inteligente grilla_ejemplo None = Inr filas_ejemplo"
    by code_simp
  have c: "filas_ejemplo ! 0 \<in> set filas_ejemplo" "filas_ejemplo ! 1 \<in> set filas_ejemplo"
    by (simp_all add: filas_ejemplo_def)
  show ?thesis
    using a b c limpieza_final_invariante [of "asegurar_codigo marco_ejemplo"
        "[\<lparr>Codigo = [], Producto = ''Martillo de bola'', Precio_de_Costo = Fin 108200\<rparr>]"
        grilla_ejemplo None filas_ejemplo]
    by blast
qed

section \<open>The price formula\<close>





text \<open>
  C10. In \<^verbatim>\<open>obtener_info_config\<close>, a supplier whose entry is a record gets, for each of
  \<^verbatim>\<open>margen\<close>, \<^verbatim>\<open>desc1\<close>, \<^verbatim>\<open>desc2\<close>, the value of the record or 0 when the record lacks
  the key; a supplier whose entry is a number gets that markup and no discount; a supplier
  without entry gets the default markup and no discount. The default markup has no effect
  on a supplier that has an entry.
\<close>

theorem obtener_info_config_entrada:
  "(map_of (margenes m) p = Some (Registro raw) \<longrightarrow>
      obtener_info_config m p =
        [(''margen'', dget raw ''margen'' 0), (''desc1'', dget raw ''desc1'' 0),
         (''desc2'', dget raw ''desc2'' 0)]
      \<and> (map_of raw ''margen'' = None \<longrightarrow> dget (obtener_info_config m p) ''margen'' 0 = 0)
      \<and> (map_of raw ''desc1'' = None \<longrightarrow> dget (obtener_info_config m p) ''desc1'' 0 = 0)
      \<and> (map_of raw ''desc2'' = None \<longrightarrow> dget (obtener_info_config m p) ''desc2'' 0 = 0))
   \<and> (map_of (margenes m) p = Some (Escalar x) \<longrightarrow>
        obtener_info_config m p = [(''margen'', x), (''desc1'', 0), (''desc2'', 0)])
   \<and> (map_of (margenes m) p = None \<longrightarrow>
        obtener_info_config m p = [(''margen'', margen_default m), (''desc1'', 0), (''desc2'', 0)])
   \<and> (map_of (margenes m) p \<noteq> None \<longrightarrow>
        obtener_info_config (m\<lparr>margen_default := y\<rparr>) p = obtener_info_config m p)"
  by (auto simp: obtener_info_config_def dget_def split: entrada.splits)

theorem obtener_info_config_entrada_witness:
  "map_of (margenes (motor_inicial\<lparr>margenes := [(''A'', Registro [(''desc1'', 10)]), (''B'', Escalar 35)]\<rparr>)) ''A''
     = Some (Registro [(''desc1'', 10)])
   \<and> map_of [(''desc1'', 10::rat)] ''margen'' = None
   \<and> map_of (margenes (motor_inicial\<lparr>margenes := [(''A'', Registro [(''desc1'', 10)]), (''B'', Escalar 35)]\<rparr>)) ''B''
     = Some (Escalar 35)
   \<and> map_of (margenes (motor_inicial\<lparr>margenes := [(''A'', Registro [(''desc1'', 10)]), (''B'', Escalar 35)]\<rparr>)) ''C''
     = None
   \<and> obtener_info_config (motor_inicial\<lparr>margenes := [(''A'', Registro [(''desc1'', 10)]), (''B'', Escalar 35)]\<rparr>) ''A''
     = [(''margen'', 0), (''desc1'', 10), (''desc2'', 0)]
   \<and> obtener_info_config (motor_inicial\<lparr>margenes := [(''A'', Registro [(''desc1'', 10)]), (''B'', Escalar 35)]\<rparr>) ''B''
     = [(''margen'', 35), (''desc1'', 0), (''desc2'', 0)]
   \<and> obtener_info_config (motor_inicial\<lparr>margenes := [(''A'', Registro [(''desc1'', 10)]), (''B'', Escalar 35)]\<rparr>) ''C''
     = [(''margen'', 20), (''desc1'', 0), (''desc2'', 0)]"
  using obtener_info_config_entrada
      [of "motor_inicial\<lparr>margenes := [(''A'', Registro [(''desc1'', 10)]), (''B'', Escalar 35)]\<rparr>" "''A''"
          "[(''desc1'', 10)]" 0 0]
    obtener_info_config_entrada
      [of "motor_inicial\<lparr>margenes := [(''A'', Registro [(''desc1'', 10)]), (''B'', Escalar 35)]\<rparr>" "''B''"
          "[]" 35 0]
    obtener_info_config_entrada
      [of "motor_inicial\<lparr>margenes := [(''A'', Registro [(''desc1'', 10)]), (''B'', Escalar 35)]\<rparr>" "''C''"
          "[]" 0 0]
  by (simp add: motor_inicial_def dget_def)

section \<open>Saving and reading the configuration\<close>



section \<open>Search\<close>



lemma agregar_matches_extiende:
  "\<exists>ys. agregar_matches m nom df res ms = res @ ys \<and> (\<forall>h \<in> set ys. umbral_fuzzy m \<le> score_busqueda h)"
proof (induction ms arbitrary: res)
  case Nil
  then show ?case by simp
next
  case (Cons a ms)
  obtain s sc where a: "a = (s, sc)" by (cases a)
  show ?case
  proof (cases "find (\<lambda>row. Producto row = s) df")
    case None
    then show ?thesis using Cons.IH [of res] by (simp add: a)
  next
    case (Some row)
    let ?h = "hacer_hit nom (obtener_info_config m nom) sc row"
    obtain ys where ys: "agregar_matches m nom df (res @ [?h]) ms = (res @ [?h]) @ ys"
        "\<forall>h \<in> set ys. umbral_fuzzy m \<le> score_busqueda h"
      using Cons.IH [of "res @ [?h]"] by blast
    have sh: "score_busqueda ?h = sc" by (simp add: hacer_hit_def)
    show ?thesis
      using Cons.IH [of res] ys sh by (auto simp: a Some)
  qed
qed

lemma bucle_fuzzy_extiende:
  "\<exists>ys. bucle_fuzzy m extract q tgt res provs = res @ ys \<and> (\<forall>h \<in> set ys. umbral_fuzzy m \<le> score_busqueda h)"
proof (induction provs arbitrary: res)
  case Nil
  then show ?case by simp
next
  case (Cons a provs)
  obtain nom df where a: "a = (nom, df)" by (cases a)
  obtain ys where ys: "agregar_matches m nom df res (extract q (map Producto df)) = res @ ys"
      "\<forall>h \<in> set ys. umbral_fuzzy m \<le> score_busqueda h"
    using agregar_matches_extiende by blast
  obtain zs where zs: "bucle_fuzzy m extract q tgt (res @ ys) provs = (res @ ys) @ zs"
      "\<forall>h \<in> set zs. umbral_fuzzy m \<le> score_busqueda h"
    using Cons.IH [of "res @ ys"] by blast
  show ?case
    using Cons.IH [of res] ys zs by (auto simp: a)
qed

lemma fase_fuzzy_extiende:
  "\<exists>ys. fase_fuzzy m re extract q limite tgt = fase_exacta m re q limite tgt @ ys
     \<and> (\<forall>h \<in> set ys. umbral_fuzzy m \<le> score_busqueda h)"
  using bucle_fuzzy_extiende [of m "extract" "strip (lower q)" tgt "fase_exacta m re q limite tgt" "proveedores m"]
  by (auto simp: fase_fuzzy_def Let_def)

lemma fase_fuzzy_partes:
  "fase_fuzzy m re extract q limite tgt = fase_exacta m re q limite tgt @ difusos m re extract q limite tgt"
  using fase_fuzzy_extiende [of m re "extract" q limite tgt] by (auto simp: difusos_def)







lemma sorted_desc:
  "sorted_wrt (\<lambda>a b. score_busqueda b \<le> score_busqueda a) (sort_key (\<lambda>x. - score_busqueda x) xs)"
proof -
  have "sorted (map (\<lambda>x. - score_busqueda x) (sort_key (\<lambda>x. - score_busqueda x) xs))"
    by (rule sorted_sort_key)
  then show ?thesis
    by (simp add: sorted_map)
qed

lemma sorted_wrt_hasta: "sorted_wrt P xs \<Longrightarrow> sorted_wrt P (hasta k xs)"
  by (simp add: hasta_def sorted_wrt_take)

text \<open>
  C8. The list returned by \<^verbatim>\<open>buscar_producto\<close> is ordered by descending score, and for a
  positive limit it has at most that many results: it is the results of both phases, sorted
  by descending score and cut at the limit.
\<close>

theorem buscar_producto_limite_orden:
  "sorted_wrt (\<lambda>a b. score_busqueda b \<le> score_busqueda a) (buscar_producto m re extract q limite tgt)
   \<and> (0 < limite \<longrightarrow>
        length (buscar_producto m re extract q limite tgt) \<le> nat limite
        \<and> buscar_producto m re extract q limite tgt =
            take (nat limite) (sort_key (\<lambda>x. - score_busqueda x)
              (fase_exacta m re q limite tgt @ difusos m re extract q limite tgt)))"
  using sorted_wrt_hasta [OF sorted_desc, of limite "fase_fuzzy m re extract q limite tgt"]
    fase_fuzzy_partes [of m re "extract" q limite tgt]
  by (simp add: buscar_producto_def hasta_def)

theorem buscar_producto_limite_orden_witness:
  "(0::int) < 1
   \<and> length (buscar_producto motor_ejemplo re_ejemplo extract_ejemplo ''martillo'' 1 None) \<le> nat 1
   \<and> map proveedor (fase_exacta motor_ejemplo re_ejemplo ''martillo'' 1 None) = [''A'', ''B'']
   \<and> map proveedor (buscar_producto motor_ejemplo re_ejemplo extract_ejemplo ''martillo'' 1 None) = [''A'']"
proof -
  have a: "map proveedor (fase_exacta motor_ejemplo re_ejemplo ''martillo'' 1 None) = [''A'', ''B'']"
    by code_simp
  have b: "map proveedor (buscar_producto motor_ejemplo re_ejemplo extract_ejemplo ''martillo'' 1 None) = [''A'']"
    by code_simp
  show ?thesis
    using a b buscar_producto_limite_orden [of motor_ejemplo re_ejemplo extract_ejemplo "''martillo''" 1 None]
    by simp
qed

lemma bucle_exacto_corte:
  "int (length res) < limite * 2 \<Longrightarrow> limite * 2 \<le> int (length (bucle_exacto m re q limite tgt res pre))
   \<Longrightarrow> bucle_exacto m re q limite tgt res (pre @ resto) = bucle_exacto m re q limite tgt res pre"
proof (induction pre arbitrary: res)
  case Nil
  then show ?case by simp
next
  case (Cons a pre)
  obtain nom df where a: "a = (nom, df)" by (cases a)
  show ?case
  proof (cases "str_contains re q")
    case None
    show ?thesis
      using Cons.IH [of res] Cons.prems by (simp add: a None split: if_splits)
  next
    case (Some c)
    show ?thesis
      using Cons.IH [of res] Cons.IH [of "res @ exactos m c limite nom df"] Cons.prems
      by (simp add: a Some Let_def split: if_splits)
  qed
qed

lemma obtener_info_config_proveedores:
  "obtener_info_config (m\<lparr>proveedores := x\<rparr>) = obtener_info_config m"
  by (rule ext) (simp add: obtener_info_config_def)

lemma bucle_exacto_proveedores:
  "bucle_exacto (m\<lparr>proveedores := x\<rparr>) re q limite tgt res provs = bucle_exacto m re q limite tgt res provs"
  by (induction provs arbitrary: res) (auto simp: exactos_def obtener_info_config_proveedores Let_def split: option.splits)

text \<open>
  C9. With a positive limit, once the first phase holds \<^verbatim>\<open>2 * limite\<close> results after the
  suppliers \<open>pre\<close>, the suppliers that follow in the catalog are not examined: the phase
  gives the same results whatever follows, even suppliers with matching products.
\<close>

theorem fase_exacta_corte:
  "0 < limite \<Longrightarrow>
   limite * 2 \<le> int (length (fase_exacta (m\<lparr>proveedores := pre\<rparr>) re q limite tgt)) \<Longrightarrow>
   fase_exacta (m\<lparr>proveedores := pre @ resto\<rparr>) re q limite tgt
     = fase_exacta (m\<lparr>proveedores := pre\<rparr>) re q limite tgt"
  using bucle_exacto_corte [of "[]" limite m re "strip (lower q)" tgt pre resto]
  by (simp add: fase_exacta_def bucle_exacto_proveedores)

theorem fase_exacta_corte_witness:
  "(0::int) < 1
   \<and> 1 * 2 \<le> int (length (fase_exacta (motor_inicial\<lparr>proveedores := take 2 catalogo_ejemplo\<rparr>) re_ejemplo ''martillo'' 1 None))
   \<and> contiene ''martillo'' (lower ''Martillo de goma'')
   \<and> map proveedor (fase_exacta (motor_inicial\<lparr>proveedores := take 2 catalogo_ejemplo @ drop 2 catalogo_ejemplo\<rparr>)
        re_ejemplo ''martillo'' 1 None) = [''A'', ''B'']"
proof -
  have a: "1 * 2 \<le> int (length (fase_exacta (motor_inicial\<lparr>proveedores := take 2 catalogo_ejemplo\<rparr>) re_ejemplo ''martillo'' 1 None))"
    by code_simp
  have b: "map proveedor (fase_exacta (motor_inicial\<lparr>proveedores := take 2 catalogo_ejemplo\<rparr>) re_ejemplo ''martillo'' 1 None) = [''A'', ''B'']"
    by code_simp
  have c: "contiene ''martillo'' (lower ''Martillo de goma'')"
    by code_simp
  have z: "(0::int) < 1" by simp
  show ?thesis
    using a b c fase_exacta_corte [OF z a, of "drop 2 catalogo_ejemplo"]
    by simp
qed

text \<open>
  C4. \<^verbatim>\<open>MotorPrecios.buscar_producto\<close> has no guard for the empty query: the empty pattern
  matches every row, so the query that is empty, or empty after stripping, returns rows of
  the catalog instead of the empty list. The search of the lightweight engine has the
  guard, and returns the empty list on these queries.
\<close>

theorem buscar_producto_consulta_vacia:
  "map producto (buscar_producto motor_ejemplo re extr [] 1 None) = [''Martillo de bola'']
   \<and> map producto (buscar_producto motor_ejemplo re extr ''   '' 1 None) = [''Martillo de bola'']
   \<and> buscar_producto_lite ml [] limite = []
   \<and> buscar_producto_lite ml ''   '' limite = []"
proof -
  have a: "map producto (buscar_producto motor_ejemplo re extr [] 1 None) = [''Martillo de bola'']"
    by code_simp
  have b: "map producto (buscar_producto motor_ejemplo re extr ''   '' 1 None) = [''Martillo de bola'']"
    by code_simp
  have c: "strip (lower []) = []" "strip (lower ''   '') = []"
    by code_simp+
  show ?thesis
    using a b by (simp add: buscar_producto_lite_def c)
qed

section \<open>The manual mapping\<close>

text \<open>
  C5, as stated, fails: on a grid of three columns from which the automatic mode makes a
  table of two rows, a manual mapping whose price column is 3 makes
  \<^verbatim>\<open>_procesar_dataframe_inteligente\<close> return the empty table; the automatic mode is not tried.
\<close>

theorem mapeo_invalido_rechaza:
  "procesar_dataframe_inteligente grilla_ejemplo (Some [(''col_producto'', 1), (''col_precio'', 3)]) = Inr []
   \<and> procesar_dataframe_inteligente grilla_ejemplo None = Inr filas_ejemplo
   \<and> modo_automatico 2 grilla_ejemplo = Inr filas_ejemplo
   \<and> filas_ejemplo \<noteq> []"
  by code_simp

text \<open>
  C5, amended. On a grid with rows and without the two final column names, a manual mapping
  whose product or price index is greater than the last column index makes the function
  return the empty table at once, without automatic inference. The automatic mode is the
  fallback when applying the mapping raises: so for an index below minus the number of
  columns, where it runs on the grid left after the skipped rows.
\<close>

theorem mapeo_fuera_de_rango:
  "(\<not> (Nom ''Producto'' \<in> set (columnas df) \<and> Nom ''Precio de Costo'' \<in> set (columnas df))
      \<and> filas df \<noteq> [] \<and> mapeo \<noteq> []
      \<and> (dget mapeo ''col_producto'' (- 1) > int (length (columnas df)) - 1
          \<or> dget mapeo ''col_precio'' (- 1) > int (length (columnas df)) - 1)
      \<longrightarrow> procesar_dataframe_inteligente df (Some mapeo) = Inr [])
   \<and> (\<not> (Nom ''Producto'' \<in> set (columnas df) \<and> Nom ''Precio de Costo'' \<in> set (columnas df))
      \<and> filas df \<noteq> [] \<and> mapeo \<noteq> []
      \<and> dget mapeo ''col_producto'' (- 1) \<le> int (length (columnas df)) - 1
      \<and> dget mapeo ''col_precio'' (- 1) \<le> int (length (columnas df)) - 1
      \<and> (dget mapeo ''col_producto'' (- 1) < - int (length (columnas df))
          \<or> dget mapeo ''col_precio'' (- 1) < - int (length (columnas df)))
      \<longrightarrow> procesar_dataframe_inteligente df (Some mapeo)
            = modo_automatico (length (filas df))
                (if dget mapeo ''skip_rows'' 0 > 0
                 then df\<lparr>filas := drop (nat (dget mapeo ''skip_rows'' 0)) (filas df)\<rparr> else df))"
  by (auto simp: procesar_dataframe_inteligente_def modo_manual_def py_index_def Let_def
      split: option.splits)

theorem mapeo_fuera_de_rango_witness:
  "\<not> (Nom ''Producto'' \<in> set (columnas grilla_ejemplo) \<and> Nom ''Precio de Costo'' \<in> set (columnas grilla_ejemplo))
   \<and> filas grilla_ejemplo \<noteq> []
   \<and> dget [(''col_producto'', 1), (''col_precio'', 3)] ''col_precio'' (- 1) > int (length (columnas grilla_ejemplo)) - 1
   \<and> procesar_dataframe_inteligente grilla_ejemplo (Some [(''col_producto'', 1), (''col_precio'', 3)]) = Inr []
   \<and> dget [(''col_producto'', 1), (''col_precio'', - 4)] ''col_producto'' (- 1) \<le> int (length (columnas grilla_ejemplo)) - 1
   \<and> dget [(''col_producto'', 1), (''col_precio'', - 4)] ''col_precio'' (- 1) < - int (length (columnas grilla_ejemplo))
   \<and> procesar_dataframe_inteligente grilla_ejemplo (Some [(''col_producto'', 1), (''col_precio'', - 4)])
       = Inr filas_ejemplo"
proof -
  have c: "\<not> (Nom ''Producto'' \<in> set (columnas grilla_ejemplo) \<and> Nom ''Precio de Costo'' \<in> set (columnas grilla_ejemplo))"
    and f: "filas grilla_ejemplo \<noteq> []" and l: "int (length (columnas grilla_ejemplo)) = 3"
    and n: "length (filas grilla_ejemplo) = 2"
    by (simp_all add: grilla_ejemplo_def)
  have a: "modo_automatico 2 grilla_ejemplo = Inr filas_ejemplo"
    by code_simp
  have d: "dget [(''col_producto'', 1), (''col_precio'', 3)] ''col_precio'' (- 1) = (3::int)"
    "dget [(''col_producto'', 1), (''col_precio'', 3)] ''col_producto'' (- 1) = (1::int)"
    "dget [(''col_producto'', 1), (''col_precio'', - 4)] ''col_precio'' (- 1) = (- 4::int)"
    "dget [(''col_producto'', 1), (''col_precio'', - 4)] ''col_producto'' (- 1) = (1::int)"
    "dget [(''col_producto'', 1), (''col_precio'', - 4)] ''skip_rows'' 0 = (0::int)"
    by (simp_all add: dget_def)
  show ?thesis
    using mapeo_fuera_de_rango [of grilla_ejemplo "[(''col_producto'', 1), (''col_precio'', 3)]"]
      mapeo_fuera_de_rango [of grilla_ejemplo "[(''col_producto'', 1), (''col_precio'', - 4)]"]
    by (simp add: c f l n a d)
qed

end
